theory Spec2Isabelle
  imports Complex_Main "HOL-Library.AList"
begin

section \<open>Hostel price scraper: acquisition, normalisation and derived prices\<close>

text \<open>
  A shallow embedding of \<^verbatim>\<open>src/Here/finalapp.py\<close>: the availability query
  (\<^verbatim>\<open>scrape_prices\<close>), the per-property fetch (\<^verbatim>\<open>scrape_hostel\<close>), the batch
  (\<^verbatim>\<open>scrape_hotels\<close>), the price parser (\<^verbatim>\<open>parse_hotel_prices\<close>) and the derived-price
  calculation (\<^verbatim>\<open>process_hostel_data\<close>).

  Conventions of the embedding.
  \<^item> Python floats are idealised as exact rationals (\<^typ>\<open>rat\<close>); \<^verbatim>\<open>NaN\<close> is \<^term>\<open>None\<close>
    in a \<^typ>\<open>rat option\<close>. Binary rounding error of the IEEE arithmetic is not modelled.
  \<^item> Python strings are \<^typ>\<open>string\<close>; a character is its code point, so the accented
    letters of the source (all below 256) are single characters written \<open>CHR 0x..\<close>.
  \<^item> A calendar date is its day number (\<^typ>\<open>int\<close>), so that \<^verbatim>\<open>(b - a).days\<close> is \<open>b - a\<close>.
  \<^item> Exceptions are values: a function that can raise returns \<open>exn + 'a\<close>.
\<close>

subsection \<open>Exceptions\<close>

text \<open>The exceptions that the modelled code can meet, each with the text \<^verbatim>\<open>str(e)\<close> gives.\<close>

datatype exn =
    TypeError string
  | KeyError string
  | JSONDecodeError string
  | HTTPError string


subsection \<open>Rounding to two decimals\<close>

text \<open>
  \<^verbatim>\<open>round(x, 2)\<close>: the nearest multiple of one hundredth, a tie going to the even
  neighbour.
\<close>

definition round_half_even :: "rat \<Rightarrow> int" where
  "round_half_even y =
     (let f = \<lfloor>y\<rfloor>; d = y - of_int f
      in if d < 1 / 2 then f
         else if 1 / 2 < d then f + 1
         else if even f then f else f + 1)"

definition round2 :: "rat \<Rightarrow> rat" where
  "round2 x = of_int (round_half_even (x * 100)) / 100"

subsection \<open>The result row of a property\<close>

text \<open>
  The keys that \<^verbatim>\<open>process_hostel_data\<close> writes into a result dictionary; \<open>key_name\<close>
  gives the text of each key in the source.
\<close>

datatype key =
    Nombre_Hotel | Tipo | URL | Error
  | Dias_con_Disponibilidad | Total_Dias_en_Rango
  | Dias_con_Disponibilidad_1A | Total_Dias_en_Rango_1A
  | Precio_Privado_2 | Precio_Compartido_2
  | Precio_Compartido_2_Calculado | Precio_Privado_2_Calculado
  | Precio_Sin_Tasa_Privado_2 | Tasa_Turistica_2 | Interes_Privado_2
  | Precio_Sin_Tasa_Compartido_2 | Interes_Compartido_2
  | Precio_Compartido_1 | Precio_Sin_Tasa_Compartido_1
  | Tasa_Turistica_1 | Interes_Compartido_1

fun key_name :: "key \<Rightarrow> string" where
  "key_name Nombre_Hotel = ''Nombre Hotel''"
| "key_name Tipo = ''Tipo''"
| "key_name URL = ''URL''"
| "key_name Error = ''Error''"
| "key_name Dias_con_Disponibilidad = ''D'' @ [CHR 0xED] @ ''as con Disponibilidad''"
| "key_name Total_Dias_en_Rango = ''Total D'' @ [CHR 0xED] @ ''as en Rango''"
| "key_name Dias_con_Disponibilidad_1A = ''D'' @ [CHR 0xED] @ ''as con Disponibilidad 1A''"
| "key_name Total_Dias_en_Rango_1A = ''Total D'' @ [CHR 0xED] @ ''as en Rango 1A''"
| "key_name Precio_Privado_2 = ''Precio Hab Ba'' @ [CHR 0xF1] @ ''o Privado 2 Adultos''"
| "key_name Precio_Compartido_2 = ''Precio Hab Ba'' @ [CHR 0xF1] @ ''o Compartido 2 Adultos''"
| "key_name Precio_Compartido_2_Calculado =
     ''Precio Hab Ba'' @ [CHR 0xF1] @ ''o Compartido 2 Adultos (Calculado)''"
| "key_name Precio_Privado_2_Calculado =
     ''Precio Hab Ba'' @ [CHR 0xF1] @ ''o Privado 2 Adultos (Calculado)''"
| "key_name Precio_Sin_Tasa_Privado_2 = ''Precio Sin Tasa Privado 2 Adultos''"
| "key_name Tasa_Turistica_2 = ''Tasa Tur'' @ [CHR 0xED] @ ''stica 2 Adultos''"
| "key_name Interes_Privado_2 = ''Inter'' @ [CHR 0xE9] @ ''s 8% Privado 2 Adultos''"
| "key_name Precio_Sin_Tasa_Compartido_2 = ''Precio Sin Tasa Compartido 2 Adultos''"
| "key_name Interes_Compartido_2 = ''Inter'' @ [CHR 0xE9] @ ''s 8% Compartido 2 Adultos''"
| "key_name Precio_Compartido_1 = ''Precio Hab Ba'' @ [CHR 0xF1] @ ''o Compartido 1 Adulto''"
| "key_name Precio_Sin_Tasa_Compartido_1 = ''Precio Sin Tasa Compartido 1 Adulto''"
| "key_name Tasa_Turistica_1 = ''Tasa Tur'' @ [CHR 0xED] @ ''stica 1 Adulto''"
| "key_name Interes_Compartido_1 = ''Inter'' @ [CHR 0xE9] @ ''s 8% Compartido 1 Adulto''"

datatype val = VStr string | VNum rat | VInt int | VBool bool

text \<open>
  A Python dictionary keeps its keys in insertion order; assigning to a key that is
  present replaces the value in place, otherwise the pair is appended.
\<close>

type_synonym row = "(key \<times> val) list"

definition dict_set :: "key \<Rightarrow> val \<Rightarrow> row \<Rightarrow> row" where
  "dict_set k v d = AList.update k v d"

definition dict_get :: "row \<Rightarrow> key \<Rightarrow> val option" where
  "dict_get d k = map_of d k"

definition startswith :: "string \<Rightarrow> string \<Rightarrow> bool" where
  "startswith s p = (take (length p) s = p)"

subsection \<open>Pricing rules by property type (lines 505--564 and 614--650)\<close>

definition Hibrido_acc :: string where
  "Hibrido_acc = ''H'' @ [CHR 0xED] @ ''brido''"

text \<open>
  The 2-adult rules, applied to the representative price \<open>price_2_adults\<close>. The branch
  for \<^verbatim>\<open>'Privado'\<close>:
\<close>

definition rules_2_privado :: "rat \<Rightarrow> row \<Rightarrow> row" where
  "rules_2_privado price_2_adults result =
     (let result = dict_set Precio_Privado_2 (VNum (round2 price_2_adults)) result;
          result = dict_set Precio_Compartido_2 (VNum (round2 (price_2_adults * 0.8))) result;
          result = dict_set Precio_Compartido_2_Calculado (VBool True) result;
          precio_sin_tasa_privado = price_2_adults - 5.5 * 2;
          interes_privado = precio_sin_tasa_privado * 0.08;
          precio_sin_tasa_privado_final = precio_sin_tasa_privado - interes_privado;
          result = dict_set Precio_Sin_Tasa_Privado_2
                     (VNum (round2 precio_sin_tasa_privado_final)) result;
          result = dict_set Tasa_Turistica_2 (VNum (5.5 * 2)) result;
          result = dict_set Interes_Privado_2 (VNum (round2 interes_privado)) result;
          precio_sin_tasa_compartido = price_2_adults * 0.8 - 5.5 * 2;
          interes_compartido = precio_sin_tasa_compartido * 0.08;
          precio_sin_tasa_compartido_final = precio_sin_tasa_compartido - interes_compartido;
          result = dict_set Precio_Sin_Tasa_Compartido_2
                     (VNum (round2 precio_sin_tasa_compartido_final)) result;
          result = dict_set Interes_Compartido_2 (VNum (round2 interes_compartido)) result
      in result)"

text \<open>
  The branch for \<^verbatim>\<open>'Compartido'\<close>; the source repeats the same statements in its
  branch for the two spellings of \<^verbatim>\<open>'Hibrido'\<close> (with and without the accent).
\<close>

definition rules_2_compartido :: "rat \<Rightarrow> row \<Rightarrow> row" where
  "rules_2_compartido price_2_adults result =
     (let result = dict_set Precio_Compartido_2 (VNum (round2 price_2_adults)) result;
          result = dict_set Precio_Privado_2 (VNum (round2 (price_2_adults * 1.2))) result;
          result = dict_set Precio_Privado_2_Calculado (VBool True) result;
          precio_sin_tasa_compartido = price_2_adults - 5.5 * 2;
          interes_compartido = precio_sin_tasa_compartido * 0.08;
          precio_sin_tasa_compartido_final = precio_sin_tasa_compartido - interes_compartido;
          result = dict_set Precio_Sin_Tasa_Compartido_2
                     (VNum (round2 precio_sin_tasa_compartido_final)) result;
          result = dict_set Tasa_Turistica_2 (VNum (5.5 * 2)) result;
          result = dict_set Interes_Compartido_2 (VNum (round2 interes_compartido)) result;
          precio_sin_tasa_privado = price_2_adults * 1.2 - 5.5 * 2;
          interes_privado = precio_sin_tasa_privado * 0.08;
          precio_sin_tasa_privado_final = precio_sin_tasa_privado - interes_privado;
          result = dict_set Precio_Sin_Tasa_Privado_2
                     (VNum (round2 precio_sin_tasa_privado_final)) result;
          result = dict_set Interes_Privado_2 (VNum (round2 interes_privado)) result
      in result)"

definition rules_2_adults :: "string option \<Rightarrow> rat \<Rightarrow> row \<Rightarrow> row" where
  "rules_2_adults tp price_2_adults result =
    (if tp = Some ''Privado'' then rules_2_privado price_2_adults result
     else if tp = Some ''Compartido'' then rules_2_compartido price_2_adults result
     else if tp = Some Hibrido_acc \<or> tp = Some ''Hibrido''
       then rules_2_compartido price_2_adults result
     else result)"

text \<open>The 1-adult rules: only the shared-room variant is written.\<close>

definition rules_1_privado :: "rat \<Rightarrow> row \<Rightarrow> row" where
  "rules_1_privado price_1_adult result =
     (let result = dict_set Precio_Compartido_1 (VNum (round2 (price_1_adult * 0.8))) result;
          precio_sin_tasa_compartido = price_1_adult * 0.8 - 5.5;
          interes_compartido = precio_sin_tasa_compartido * 0.08;
          precio_sin_tasa_compartido_final = precio_sin_tasa_compartido - interes_compartido;
          result = dict_set Precio_Sin_Tasa_Compartido_1
                     (VNum (round2 precio_sin_tasa_compartido_final)) result;
          result = dict_set Tasa_Turistica_1 (VNum 5.5) result;
          result = dict_set Interes_Compartido_1 (VNum (round2 interes_compartido)) result
      in result)"

definition rules_1_compartido :: "rat \<Rightarrow> row \<Rightarrow> row" where
  "rules_1_compartido price_1_adult result =
     (let result = dict_set Precio_Compartido_1 (VNum (round2 price_1_adult)) result;
          precio_sin_tasa_compartido = price_1_adult - 5.5;
          interes_compartido = precio_sin_tasa_compartido * 0.08;
          precio_sin_tasa_compartido_final = precio_sin_tasa_compartido - interes_compartido;
          result = dict_set Precio_Sin_Tasa_Compartido_1
                     (VNum (round2 precio_sin_tasa_compartido_final)) result;
          result = dict_set Tasa_Turistica_1 (VNum 5.5) result;
          result = dict_set Interes_Compartido_1 (VNum (round2 interes_compartido)) result
      in result)"

definition rules_1_adult :: "string option \<Rightarrow> rat \<Rightarrow> row \<Rightarrow> row" where
  "rules_1_adult tp price_1_adult result =
    (if tp = Some ''Privado'' then rules_1_privado price_1_adult result
     else if tp = Some ''Compartido'' then rules_1_compartido price_1_adult result
     else if tp = Some Hibrido_acc \<or> tp = Some ''Hibrido''
       then rules_1_compartido price_1_adult result
     else result)"

subsection \<open>Day records and \<^verbatim>\<open>parse_hotel_prices\<close>\<close>

text \<open>
  A raw day record of the availability endpoint. \<open>checkin\<close> stands for the calendar day
  that \<^verbatim>\<open>pd.to_datetime\<close> reads from the record's text.
\<close>

record raw_day =
  available :: bool
  avgPriceFormatted :: string
  checkin :: int

text \<open>A row of the data frame: the raw columns and the two computed ones.\<close>

record df_row = raw_day +
  price :: "rat option"
  date :: int

text \<open>
  \<^verbatim>\<open>str.extract(r'(\d+\.?\d*)')\<close> followed by \<^verbatim>\<open>astype(float)\<close>: the leftmost run of
  digits, a dot if one follows at once, and the digits after it; \<^verbatim>\<open>NaN\<close> when the text
  has no digit.
\<close>

definition is_digit :: "char \<Rightarrow> bool" where
  "is_digit c = (c \<in> set ''0123456789'')"

definition digit_val :: "char \<Rightarrow> nat" where
  "digit_val c = of_char c - of_char (CHR ''0'')"

definition digits_val :: "string \<Rightarrow> nat" where
  "digits_val ds = foldl (\<lambda>a c. 10 * a + digit_val c) 0 ds"

text \<open>The text matched by the pattern, if any.\<close>

definition regex_extract :: "string \<Rightarrow> string option" where
  "regex_extract s =
     (let s1 = dropWhile (\<lambda>c. \<not> is_digit c) s
      in if s1 = [] then None
         else
           (let ip = takeWhile is_digit s1; rest = dropWhile is_digit s1
            in Some (case rest of
                       c # t \<Rightarrow> if c = CHR ''.'' then ip @ [c] @ takeWhile is_digit t else ip
                     | [] \<Rightarrow> ip)))"

text \<open>The value of a matched text: digits, then possibly a dot and further digits.\<close>

definition float_of_match :: "string \<Rightarrow> rat" where
  "float_of_match m =
     (let ip = takeWhile is_digit m; fp = drop (length ip + 1) m
      in of_nat (digits_val ip) + of_nat (digits_val fp) / 10 ^ length fp)"

definition extract_price :: "string \<Rightarrow> rat option" where
  "extract_price s = map_option float_of_match (regex_extract s)"

definition parse_hotel_prices :: "'a raw_day_scheme list \<Rightarrow> df_row list" where
  "parse_hotel_prices price_data =
     map (\<lambda>r. \<lparr> available = available r, avgPriceFormatted = avgPriceFormatted r,
                checkin = checkin r,
                price = extract_price (avgPriceFormatted r), date = checkin r \<rparr>) price_data"

text \<open>The availability filter \<^verbatim>\<open>df[df['price'] > 0.01]\<close>; a comparison with NaN is false.\<close>

definition price_gt :: "rat option \<Rightarrow> rat \<Rightarrow> bool" where
  "price_gt p c = (case p of None \<Rightarrow> False | Some v \<Rightarrow> c < v)"

definition filter_available :: "df_row list \<Rightarrow> df_row list" where
  "filter_available df = filter (\<lambda>r. price_gt (price r) 0.01) df"

text \<open>Normalisation: the parser followed by the availability filter.\<close>

definition normalize :: "'a raw_day_scheme list \<Rightarrow> df_row list" where
  "normalize price_data = filter_available (parse_hotel_prices price_data)"

text \<open>
  \<^verbatim>\<open>Series.min()\<close> and \<^verbatim>\<open>Series.mean()\<close> skip NaN cells; both are used on non-empty
  frames only.
\<close>

definition prices_of :: "df_row list \<Rightarrow> rat list" where
  "prices_of df = List.map_filter price df"

definition series_min :: "rat list \<Rightarrow> rat" where
  "series_min xs = fold min (tl xs) (hd xs)"

definition series_mean :: "rat list \<Rightarrow> rat" where
  "series_mean xs = sum_list xs / of_nat (length xs)"

subsection \<open>Scraped data of one property\<close>

text \<open>
  The dictionary that \<^verbatim>\<open>scrape_hostel\<close> returns and \<^verbatim>\<open>process_hostel_data\<close> reads;
  a key that may be absent is an option. \<open>'p\<close> is the type of a price list: the decoded
  JSON value on the scraping side, a list of day records on the processing side.
\<close>

record 'p hostel_info =
  h_name :: "string option"
  h_type :: "string option"
  h_url :: "string option"
  h_error :: "string option"
  h_original_name :: "string option"
  h_price_2_adults :: "'p option"
  h_price_2_adults_error :: "string option"
  h_price_1_adult :: "'p option"
  h_price_1_adult_error :: "string option"

subsection \<open>\<^verbatim>\<open>process_hostel_data\<close>\<close>

text \<open>How the body of the loop over the properties ends for one property.\<close>

datatype 'a flow = Proceed 'a | Continue | Raise exn

definition is_date_range :: "int option \<Rightarrow> int option \<Rightarrow> bool" where
  "is_date_range selected_date end_date = (end_date \<noteq> None \<and> end_date \<noteq> selected_date)"

text \<open>
  \<^verbatim>\<open>(end_date - selected_date).days + 1 if end_date else 1\<close>; subtracting \<^verbatim>\<open>None\<close> from a
  date raises.
\<close>

definition total_days_in_range :: "int option \<Rightarrow> int option \<Rightarrow> exn + int" where
  "total_days_in_range selected_date end_date =
     (case end_date of
        None \<Rightarrow> Inr 1
      | Some e \<Rightarrow>
          (case selected_date of
             None \<Rightarrow> Inl (TypeError ''unsupported operand type(s) for -'')
           | Some s \<Rightarrow> Inr (e - s + 1)))"

text \<open>
  The block that the source writes once for 2 adults (lines 458--564) and once for
  1 adult (lines 567--650). The two copies differ in the price list they read, in the
  two keys for the day counts and in the pricing rules; these are the parameters.
\<close>

definition price_section ::
  "key \<Rightarrow> key \<Rightarrow> (string option \<Rightarrow> rat \<Rightarrow> row \<Rightarrow> row) \<Rightarrow>
   int option \<Rightarrow> int option \<Rightarrow> string option \<Rightarrow> raw_day list option \<Rightarrow> row \<Rightarrow> row flow" where
  "price_section k_days k_total rules selected_date end_date tp prices result =
     (case prices of
        None \<Rightarrow> Proceed result
      | Some price_data \<Rightarrow>
          if price_data = [] then Proceed result
          else
            (let df = parse_hotel_prices price_data
             in if df = [] then Proceed result
                else
                  (let df_filtered = filter_available df
                   in if df_filtered = [] then Continue
                      else if selected_date \<noteq> None \<and> \<not> is_date_range selected_date end_date
                      then
                        (let df_date_filtered =
                               filter (\<lambda>r. Some (date r) = selected_date) df_filtered
                         in if df_date_filtered = [] then Continue
                            else Proceed (rules tp (series_min (prices_of df_date_filtered)) result))
                      else
                        (case total_days_in_range selected_date end_date of
                           Inl e \<Rightarrow> Raise e
                         | Inr total_days \<Rightarrow>
                             (let result = dict_set k_days (VInt (int (length df_filtered))) result;
                                  result = dict_set k_total (VInt total_days) result
                              in Proceed (rules tp (series_mean (prices_of df_filtered)) result))))))"

definition section_2_adults ::
  "int option \<Rightarrow> int option \<Rightarrow> raw_day list hostel_info \<Rightarrow> row \<Rightarrow> row flow" where
  "section_2_adults selected_date end_date hostel result =
     price_section Dias_con_Disponibilidad Total_Dias_en_Rango rules_2_adults
       selected_date end_date (h_type hostel) (h_price_2_adults hostel) result"

definition section_1_adult ::
  "int option \<Rightarrow> int option \<Rightarrow> raw_day list hostel_info \<Rightarrow> row \<Rightarrow> row flow" where
  "section_1_adult selected_date end_date hostel result =
     price_section Dias_con_Disponibilidad_1A Total_Dias_en_Rango_1A rules_1_adult
       selected_date end_date (h_type hostel) (h_price_1_adult hostel) result"

definition get_or :: "'a option \<Rightarrow> 'a \<Rightarrow> 'a" where
  "get_or x d = (case x of None \<Rightarrow> d | Some v \<Rightarrow> v)"

definition initial_result :: "'p hostel_info \<Rightarrow> row" where
  "initial_result hostel =
     [(Nombre_Hotel,
         VStr (get_or (h_original_name hostel) (get_or (h_name hostel) ''Unknown Hotel''))),
      (Tipo, VStr (get_or (h_type hostel) ''Unknown Type'')),
      (URL, VStr (get_or (h_url hostel) []))]"

text \<open>\<^verbatim>\<open>if not any(key.startswith('Precio') for key in result.keys())\<close>\<close>

definition check_prices_found :: "row \<Rightarrow> row" where
  "check_prices_found result =
     (if \<not> list_ex (\<lambda>k. startswith (key_name k) ''Precio'') (map fst result)
      then dict_set Error (VStr ''No pricing data available for this hostel'') result
      else result)"

text \<open>The body of the loop for a property without the key \<^verbatim>\<open>'error'\<close>.\<close>

definition process_hostel ::
  "int option \<Rightarrow> int option \<Rightarrow> raw_day list hostel_info \<Rightarrow> row flow" where
  "process_hostel selected_date end_date hostel =
     (case section_2_adults selected_date end_date hostel (initial_result hostel) of
        Continue \<Rightarrow> Continue
      | Raise e \<Rightarrow> Raise e
      | Proceed result \<Rightarrow>
          (case section_1_adult selected_date end_date hostel result of
             Continue \<Rightarrow> Continue
           | Raise e \<Rightarrow> Raise e
           | Proceed result \<Rightarrow> Proceed (check_prices_found result)))"

fun process_loop ::
  "int option \<Rightarrow> int option \<Rightarrow> raw_day list hostel_info list \<Rightarrow>
   row list \<Rightarrow> raw_day list hostel_info list \<Rightarrow>
   exn + (row list \<times> raw_day list hostel_info list)" where
  "process_loop selected_date end_date [] results error_hostels = Inr (results, error_hostels)"
| "process_loop selected_date end_date (hostel # rest) results error_hostels =
     (if h_error hostel \<noteq> None
      then process_loop selected_date end_date rest results (error_hostels @ [hostel])
      else
        (case process_hostel selected_date end_date hostel of
           Continue \<Rightarrow> process_loop selected_date end_date rest results error_hostels
         | Raise e \<Rightarrow> Inl e
         | Proceed result \<Rightarrow>
             process_loop selected_date end_date rest (results @ [result]) error_hostels))"

definition process_hostel_data ::
  "raw_day list hostel_info list \<Rightarrow> int option \<Rightarrow> int option \<Rightarrow>
   exn + (row list \<times> raw_day list hostel_info list)" where
  "process_hostel_data hostels_data selected_date end_date =
     process_loop selected_date end_date hostels_data [] []"

subsection \<open>Decoded JSON and the two Python operations used on it\<close>

datatype json =
    JNull
  | JBool bool
  | JInt int
  | JFloat rat
  | JStr string
  | JArr "json list"
  | JObj "(string \<times> json) list"

text \<open>The name Python gives to the type of a decoded value, for the messages below.\<close>

fun type_name :: "json \<Rightarrow> string" where
  "type_name JNull = ''NoneType''"
| "type_name (JBool b) = ''bool''"
| "type_name (JInt i) = ''int''"
| "type_name (JFloat x) = ''float''"
| "type_name (JStr s) = ''str''"
| "type_name (JArr xs) = ''list''"
| "type_name (JObj kvs) = ''dict''"

definition quoted :: "string \<Rightarrow> string" where
  "quoted s = [CHR 0x27] @ s @ [CHR 0x27]"

fun contains_str :: "string \<Rightarrow> string \<Rightarrow> bool" where
  "contains_str [] p = (p = [])"
| "contains_str (c # s) p = (startswith (c # s) p \<or> contains_str s p)"

text \<open>
  \<^verbatim>\<open>k in v\<close> for a string \<open>k\<close>: a key of a dictionary, an element of a list, a substring
  of a string; any other value is not iterable.
\<close>

fun py_in :: "string \<Rightarrow> json \<Rightarrow> exn + bool" where
  "py_in k (JObj kvs) = Inr (k \<in> set (map fst kvs))"
| "py_in k (JArr xs) = Inr (JStr k \<in> set xs)"
| "py_in k (JStr s) = Inr (contains_str s k)"
| "py_in k v = Inl (TypeError (''argument of type '' @ quoted (type_name v) @ '' is not iterable''))"

text \<open>\<^verbatim>\<open>v[k]\<close> for a string \<open>k\<close>.\<close>

fun py_getitem :: "json \<Rightarrow> string \<Rightarrow> exn + json" where
  "py_getitem (JObj kvs) k =
     (case map_of kvs k of None \<Rightarrow> Inl (KeyError (quoted k)) | Some v \<Rightarrow> Inr v)"
| "py_getitem (JArr xs) k = Inl (TypeError ''list indices must be integers or slices, not str'')"
| "py_getitem (JStr s) k = Inl (TypeError ''string indices must be integers'')"
| "py_getitem v k = Inl (TypeError (quoted (type_name v) @ '' object is not subscriptable''))"

subsection \<open>The HTTP session\<close>

text \<open>
  The availability query as \<^verbatim>\<open>scrape_prices\<close> builds it: the fields of the GraphQL body
  that vary, the fixed ones, and the token header. \<open>startDate\<close> is the day whose text
  \<^verbatim>\<open>strftime("%Y-%m-%d")\<close> writes into the body.
\<close>

record gql_request =
  operationName :: string
  travelPurpose :: int
  countryCode :: string
  pagename :: string
  startDate :: int
  amountOfDays :: int
  nbAdults :: int
  nbRooms :: int
  x_booking_csrf_token :: string

text \<open>
  The answer to a query: the status code and the outcome of \<^verbatim>\<open>json.loads\<close> on the body
  (the decoded value, or the exception raised on text that is not JSON).
\<close>

record post_response =
  post_status_code :: int
  post_content :: "exn + json"

text \<open>
  The answer to the landing-page request. The page text is represented by what the
  patterns of the source find in it: the first \<^verbatim>\<open>hotelName\<close>, \<^verbatim>\<open>hotelCountry\<close> and
  \<^verbatim>\<open>b_csrf_token\<close> markers, and the name read off a \<^verbatim>\<open>hotel/../name\<close> address, hyphens
  turned into spaces and title-cased, once in the text and once in the final URL.
\<close>

record get_response =
  get_status_code :: int
  get_url :: string
  text_hotelName :: "string option"
  text_hotelCountry :: "string option"
  text_csrf_token :: "string option"
  text_url_name :: "string option"
  url_name :: "string option"

text \<open>
  The session answers a request or raises. An answer depends on the request only, not on
  the moment it is sent.
\<close>

record session =
  session_get :: "string \<Rightarrow> exn + get_response"
  session_post :: "gql_request \<Rightarrow> exn + post_response"

subsection \<open>\<^verbatim>\<open>scrape_prices\<close>\<close>

definition price_n_days :: "int \<Rightarrow> int option \<Rightarrow> int" where
  "price_n_days start_date end_date =
     (let price_n_days = (case end_date of Some e \<Rightarrow> (e - start_date) + 1 | None \<Rightarrow> 1)
      in if price_n_days > 30 then 30 else price_n_days)"

definition gql_body ::
  "string \<Rightarrow> string \<Rightarrow> string \<Rightarrow> int \<Rightarrow> int \<Rightarrow> int option \<Rightarrow> gql_request" where
  "gql_body hotel_name hotel_country csrf_token num_adults start_date end_date =
     \<lparr> operationName = ''AvailabilityCalendar'',
       travelPurpose = 2,
       countryCode = hotel_country,
       pagename = hotel_name,
       startDate = start_date,
       amountOfDays = price_n_days start_date end_date,
       nbAdults = num_adults,
       nbRooms = 1,
       x_booking_csrf_token = csrf_token \<rparr>"

text \<open>
  Lines 417--429: the checks on the decoded answer. A missing envelope gives the empty
  list, not an exception.
\<close>

definition read_days :: "json \<Rightarrow> exn + json" where
  "read_days price_data =
     (case py_in ''data'' price_data of
        Inl e \<Rightarrow> Inl e
      | Inr has_data \<Rightarrow>
          if \<not> has_data then Inr (JArr [])
          else
            (case py_getitem price_data ''data'' of
               Inl e \<Rightarrow> Inl e
             | Inr data \<Rightarrow>
                 (case py_in ''availabilityCalendar'' data of
                    Inl e \<Rightarrow> Inl e
                  | Inr has_calendar \<Rightarrow>
                      if \<not> has_calendar then Inr (JArr [])
                      else
                        (case py_getitem data ''availabilityCalendar'' of
                           Inl e \<Rightarrow> Inl e
                         | Inr calendar \<Rightarrow>
                             (case py_in ''days'' calendar of
                                Inl e \<Rightarrow> Inl e
                              | Inr has_days \<Rightarrow>
                                  if \<not> has_days then Inr (JArr [])
                                  else py_getitem calendar ''days'')))))"

text \<open>
  The outcome of \<^verbatim>\<open>scrape_prices\<close> and the queries it has sent, in order. The handler
  \<^verbatim>\<open>except Exception as e: ... raise e\<close> logs and raises the same exception again.
\<close>

definition scrape_prices ::
  "session \<Rightarrow> string \<Rightarrow> string \<Rightarrow> string \<Rightarrow> int \<Rightarrow> int \<Rightarrow> int option \<Rightarrow>
   (exn + json) \<times> gql_request list" where
  "scrape_prices s hotel_name hotel_country csrf_token num_adults start_date end_date =
     (let body = gql_body hotel_name hotel_country csrf_token num_adults start_date end_date
      in (case session_post s body of
            Inl e \<Rightarrow> Inl e
          | Inr result_price \<Rightarrow>
              (case post_content result_price of
                 Inl e \<Rightarrow> Inl e
               | Inr price_data \<Rightarrow> read_days price_data),
          [body]))"

subsection \<open>\<^verbatim>\<open>parse_hotel\<close> and \<^verbatim>\<open>scrape_hostel\<close>\<close>

text \<open>An entry of the list of properties to scrape.\<close>

record hostel =
  in_name :: "string option"
  in_type :: "string option"
  in_url :: "string option"
  in_link :: "string option"






subsection \<open>\<^verbatim>\<open>asyncio.gather\<close> and \<^verbatim>\<open>scrape_hotels\<close>\<close>




subsection \<open>The day span as the specification words it\<close>

definition spec_dayspan :: "int \<Rightarrow> int option \<Rightarrow> int" where
  "spec_dayspan start_date end_date =
     (case end_date of Some e \<Rightarrow> (e - start_date) + 1 | None \<Rightarrow> 1)"

subsection \<open>The final price as the specification words it\<close>


subsection \<open>Sample inputs\<close>

text \<open>Four day records: two for day 5, one for day 6 and one without a price for day 7.\<close>

definition four_days :: "raw_day list" where
  "four_days =
     [\<lparr>available = True, avgPriceFormatted = ''EUR 40'', checkin = 5\<rparr>,
      \<lparr>available = True, avgPriceFormatted = ''EUR 35.00'', checkin = 5\<rparr>,
      \<lparr>available = True, avgPriceFormatted = ''EUR 60'', checkin = 6\<rparr>,
      \<lparr>available = False, avgPriceFormatted = ''EUR 0'', checkin = 7\<rparr>]"

text \<open>Three day records: one priced, one priced at zero, one without a number.\<close>

definition three_days :: "raw_day list" where
  "three_days =
     [\<lparr>available = True, avgPriceFormatted = ''EUR 45.50'', checkin = 1\<rparr>,
      \<lparr>available = False, avgPriceFormatted = ''EUR 0'', checkin = 2\<rparr>,
      \<lparr>available = False, avgPriceFormatted = ''n/a'', checkin = 3\<rparr>]"

text \<open>
  A scraped property whose only 2-adult day has the price zero while its 1-adult day is
  priced; the same property with the roles of the two lists exchanged; and the same
  property with an empty 2-adult list.
\<close>

definition hostel_no_2_adult_price :: "raw_day list hostel_info" where
  "hostel_no_2_adult_price =
     \<lparr> h_name = Some ''Hostal Ramos'', h_type = Some ''Privado'',
       h_url = Some ''https://www.booking.com/hotel/es/hostal-ramos.es.html'',
       h_error = None, h_original_name = Some ''Hostal Ramos'',
       h_price_2_adults =
         Some [\<lparr>available = False, avgPriceFormatted = ''EUR 0'', checkin = 5\<rparr>],
       h_price_2_adults_error = None,
       h_price_1_adult =
         Some [\<lparr>available = True, avgPriceFormatted = ''EUR 50'', checkin = 5\<rparr>],
       h_price_1_adult_error = None \<rparr>"

definition hostel_no_1_adult_price :: "raw_day list hostel_info" where
  "hostel_no_1_adult_price =
     hostel_no_2_adult_price
       \<lparr> h_price_2_adults :=
           Some [\<lparr>available = True, avgPriceFormatted = ''EUR 101'', checkin = 5\<rparr>],
         h_price_1_adult :=
           Some [\<lparr>available = False, avgPriceFormatted = ''EUR 0'', checkin = 5\<rparr>] \<rparr>"

definition hostel_empty_2_adult_list :: "raw_day list hostel_info" where
  "hostel_empty_2_adult_list = hostel_no_2_adult_price \<lparr> h_price_2_adults := Some [] \<rparr>"

text \<open>
  Three sessions: one that answers every query with status 500 and a body without the
  result envelope, one whose requests all raise, and one that serves one landing page and
  answers every query with a day list.
\<close>

definition status_500_session :: session where
  "status_500_session =
     \<lparr> session_get = (\<lambda>url. Inl (HTTPError ''connection refused'')),
       session_post = (\<lambda>body.
         Inr \<lparr> post_status_code = 500,
               post_content = Inr (JObj [(''message'', JStr ''Internal Server Error'')]) \<rparr>) \<rparr>"




section \<open>Properties\<close>

subsection \<open>Auxiliary facts\<close>

lemma floor_rat_numeral_div:
  "\<lfloor>(numeral a :: rat) / numeral b\<rfloor> = numeral a div numeral b"
  using floor_divide_of_int_eq [of "numeral a" "numeral b", where ?'a = rat] by simp

lemma dict_get_set:
  "dict_get (dict_set k v d) k' = (if k' = k then Some v else dict_get d k')"
  by (simp add: dict_get_def dict_set_def update_conv')


lemmas rules_defs =
  rules_2_adults_def rules_2_privado_def rules_2_compartido_def
  rules_1_adult_def rules_1_privado_def rules_1_compartido_def Hibrido_acc_def

lemma round2_at_101:
  "round2 (101 * 0.8) = 80.80"
  "round2 ((101 - 5.5 * 2) - (101 - 5.5 * 2) * 0.08) = 82.80"
  "round2 ((101 * 0.8 - 5.5 * 2) - (101 * 0.8 - 5.5 * 2) * 0.08) = 64.22"
  by (simp_all add: round2_def round_half_even_def Let_def floor_rat_numeral_div)

lemma prices_of_filter_available:
  "prices_of (filter Q (filter_available df)) = map (\<lambda>r. the (price r)) (filter Q (filter_available df))"
  by (induction df) (auto simp: prices_of_def filter_available_def price_gt_def map_filter_simps split: option.splits)

lemma length_prices_of_filter_available:
  "length (prices_of (filter_available df)) = length (filter_available df)"
  using prices_of_filter_available [of "\<lambda>_. True" df] by simp

lemma series_min_eq_Min: "xs \<noteq> [] \<Longrightarrow> series_min xs = Min (set xs)"
proof -
  assume "xs \<noteq> []"
  then obtain a list where xs: "xs = a # list" by (cases xs) auto
  show ?thesis
    unfolding series_min_def xs using Min.set_eq_fold [of a list] by simp
qed

lemma parse_hotel_prices_Nil: "(parse_hotel_prices pd = []) = (pd = [])"
  by (simp add: parse_hotel_prices_def)

lemma normalize_nonempty: "normalize pd \<noteq> [] \<Longrightarrow> pd \<noteq> []"
  by (auto simp: normalize_def parse_hotel_prices_def filter_available_def)

lemma price_section_single:
  assumes "\<not> is_date_range (Some d) end_date"
    and "filter (\<lambda>r. date r = d) (normalize pd) \<noteq> []"
  shows "price_section kd kt rules (Some d) end_date tp (Some pd) r =
         Proceed (rules tp (Min (set (prices_of (filter (\<lambda>r. date r = d) (normalize pd))))) r)"
proof -
  from assms(2) have ne: "normalize pd \<noteq> []" by auto
  then have pd: "pd \<noteq> []" by (rule normalize_nonempty)
  have "prices_of (filter (\<lambda>r. date r = d) (normalize pd)) \<noteq> []"
    using assms(2) by (simp add: normalize_def prices_of_filter_available)
  then have "series_min (prices_of (filter (\<lambda>r. date r = d) (normalize pd)))
      = Min (set (prices_of (filter (\<lambda>r. date r = d) (normalize pd))))"
    by (rule series_min_eq_Min)
  then show ?thesis
    using assms pd ne
    by (simp add: price_section_def Let_def parse_hotel_prices_Nil normalize_def)
qed

lemma price_section_range:
  assumes "is_date_range (Some s) (Some e)"
    and "normalize pd \<noteq> []"
  shows "price_section kd kt rules (Some s) (Some e) tp (Some pd) r =
         Proceed (rules tp (sum_list (prices_of (normalize pd)) / of_nat (length (normalize pd)))
           (dict_set kt (VInt (e - s + 1))
             (dict_set kd (VInt (int (length (normalize pd)))) r)))"
proof -
  from assms(2) have pd: "pd \<noteq> []" by (rule normalize_nonempty)
  show ?thesis
    using assms pd
    by (simp add: price_section_def Let_def parse_hotel_prices_Nil normalize_def
        total_days_in_range_def series_mean_def length_prices_of_filter_available)
qed




lemma normalize_four_days:
  "normalize four_days =
     [\<lparr>available = True, avgPriceFormatted = ''EUR 40'', checkin = 5, price = Some 40, date = 5\<rparr>,
      \<lparr>available = True, avgPriceFormatted = ''EUR 35.00'', checkin = 5, price = Some 35, date = 5\<rparr>,
      \<lparr>available = True, avgPriceFormatted = ''EUR 60'', checkin = 6, price = Some 60, date = 6\<rparr>]"
  unfolding four_days_def by code_simp

lemma regex_extract_None_iff:
  "(regex_extract s = None) = (\<forall>c\<in>set s. \<not> is_digit c)"
  by (simp add: regex_extract_def Let_def dropWhile_eq_Nil_conv)

lemma extract_price_None_iff:
  "(extract_price s = None) = (\<forall>c\<in>set s. \<not> is_digit c)"
  by (simp add: extract_price_def regex_extract_None_iff)

lemma extract_price_nonneg: "extract_price s = Some v \<Longrightarrow> 0 \<le> v"
  by (auto simp add: extract_price_def float_of_match_def Let_def)


lemma normalize_as_filter:
  "normalize xs =
     parse_hotel_prices (filter (\<lambda>r. price_gt (extract_price (avgPriceFormatted r)) 0.01) xs)"
  by (simp add: normalize_def parse_hotel_prices_def filter_available_def filter_map comp_def)

lemma normalize_row_text:
  "row \<in> set (normalize xs) \<Longrightarrow> price_gt (extract_price (avgPriceFormatted row)) 0.01"
  unfolding normalize_as_filter by (auto simp add: parse_hotel_prices_def)

lemma normalize_price_gt:
  "row \<in> set (normalize xs) \<Longrightarrow> \<exists>v. price row = Some v \<and> 0.01 < v"
  unfolding normalize_def filter_available_def
  by (cases "price row") (simp_all add: price_gt_def)

lemma normalize_idem: "normalize (normalize xs) = normalize xs"
proof -
  have "filter (\<lambda>r. price_gt (extract_price (avgPriceFormatted r)) 0.01) (normalize xs)
        = normalize xs"
    using normalize_row_text [of _ xs] by (simp add: filter_id_conv)
  then have "normalize (normalize xs) = parse_hotel_prices (normalize xs)"
    by (simp add: normalize_as_filter [of "normalize xs"])
  also have "\<dots> = normalize xs"
    unfolding normalize_as_filter [of xs] by (simp add: parse_hotel_prices_def)
  finally show ?thesis .
qed

lemma normalize_three_days:
  "normalize three_days =
     [\<lparr>available = True, avgPriceFormatted = ''EUR 45.50'', checkin = 1,
       price = Some 45.5, date = 1\<rparr>]"
  unfolding three_days_def by code_simp








subsection \<open>Derived values at a representative price of 101\<close>

text \<open>
  Claim C1, as stated, fails: for a property of type \<^verbatim>\<open>'Privado'\<close> and the
  representative price 101 the 2-adult final price of the shared room is not 64.18.
\<close>

theorem privado_101_shared_final_not_64_18:
  "dict_get (rules_2_adults (Some ''Privado'') 101 []) Precio_Sin_Tasa_Compartido_2
     \<noteq> Some (VNum 64.18)"
  using round2_at_101 by (simp add: rules_defs dict_get_set Let_def)

text \<open>
  Claim C1, amended: for a property of type \<^verbatim>\<open>'Privado'\<close> and the representative price
  101, whatever the row held before, the shared room price is 80.80, the 2-adult final
  price of the private room is 82.80 and the 2-adult final price of the shared room is
  64.22, which is \<open>(80.80 - 11) * 0.92 = 64.216\<close> rounded to two decimals.
\<close>

theorem privado_101_derived_values:
  "dict_get (rules_2_adults (Some ''Privado'') 101 r) Precio_Compartido_2 = Some (VNum 80.80)
   \<and> dict_get (rules_2_adults (Some ''Privado'') 101 r) Precio_Sin_Tasa_Privado_2
       = Some (VNum 82.80)
   \<and> dict_get (rules_2_adults (Some ''Privado'') 101 r) Precio_Sin_Tasa_Compartido_2
       = Some (VNum 64.22)"
  using round2_at_101 by (simp add: rules_defs dict_get_set Let_def)

subsection \<open>Room prices by category\<close>



subsection \<open>Final prices net of tax and margin\<close>



subsection \<open>The representative price\<close>

text \<open>
  Claim C6: whenever the filtered prices are not empty, a single-date selection (a
  selected date with no end date, or with an end date equal to it) takes as
  representative price the minimum of the filtered entries of that exact calendar day,
  and a range selection takes the arithmetic mean of all filtered entries, the number of
  days with availability being the count of those entries and the total number of days
  \<open>(end - start).days + 1\<close>. The statement is about the block shared by the 2-adult and
  the 1-adult section, for any pair of day-count keys and any pricing rules.
\<close>

theorem representative_price:
  "(\<not> is_date_range (Some d) end_date
      \<and> filter (\<lambda>r. date r = d) (normalize pd) \<noteq> [] \<longrightarrow>
      price_section kd kt rules (Some d) end_date tp (Some pd) r =
        Proceed (rules tp (Min (set (prices_of (filter (\<lambda>r. date r = d) (normalize pd))))) r))
   \<and> (is_date_range (Some s) (Some e) \<and> normalize pd \<noteq> [] \<longrightarrow>
      price_section kd kt rules (Some s) (Some e) tp (Some pd) r =
        Proceed (rules tp (sum_list (prices_of (normalize pd)) / of_nat (length (normalize pd)))
           (dict_set kt (VInt (e - s + 1))
             (dict_set kd (VInt (int (length (normalize pd)))) r)))
      \<and> length (prices_of (normalize pd)) = length (normalize pd))"
  using price_section_single [of d end_date pd kd kt rules tp r]
    price_section_range [of s e pd kd kt rules tp r]
    length_prices_of_filter_available [of "parse_hotel_prices pd"]
  by (simp add: normalize_def)

text \<open>On the four sample days: the minimum 35 for day 5, the mean 45 for days 5 to 7.\<close>

theorem representative_price_witness:
  "price_section Dias_con_Disponibilidad Total_Dias_en_Rango rules_2_adults
     (Some 5) None (Some ''Compartido'') (Some four_days) []
     = Proceed (rules_2_adults (Some ''Compartido'') 35 [])
   \<and> price_section Dias_con_Disponibilidad Total_Dias_en_Rango rules_2_adults
     (Some 5) (Some 7) (Some ''Compartido'') (Some four_days) []
     = Proceed (rules_2_adults (Some ''Compartido'') 45
         [(Dias_con_Disponibilidad, VInt 3), (Total_Dias_en_Rango, VInt 3)])"
  using representative_price [of 5 None four_days Dias_con_Disponibilidad Total_Dias_en_Rango
      rules_2_adults "Some ''Compartido''" "[]" 5 7]
  by (simp add: normalize_four_days is_date_range_def prices_of_def map_filter_simps
      dict_set_def)

subsection \<open>An end date equal to the selected date\<close>


subsection \<open>A property whose prices are all filtered out\<close>

text \<open>
  Claim C2 says that a property with no price left for one adult count still gets a
  result row, which only lacks the keys of that adult count. The code leaves the loop
  body with \<^verbatim>\<open>continue\<close> instead: the property gets no row at all, neither among the
  results nor among the error records, whichever adult count is empty, for a single date
  and for a range. Only when the price list itself is empty does the row appear with
  the keys of the other adult count.
\<close>

theorem filtered_out_prices_drop_the_property:
  "process_hostel_data [hostel_no_2_adult_price] (Some 5) None = Inr ([], [])
   \<and> process_hostel_data [hostel_no_1_adult_price] (Some 5) None = Inr ([], [])
   \<and> process_hostel_data [hostel_no_2_adult_price] (Some 5) (Some 9) = Inr ([], [])
   \<and> process_hostel_data [hostel_empty_2_adult_list] (Some 5) None =
       Inr ([[(Nombre_Hotel, VStr ''Hostal Ramos''), (Tipo, VStr ''Privado''),
              (URL, VStr ''https://www.booking.com/hotel/es/hostal-ramos.es.html''),
              (Precio_Compartido_1, VNum 40), (Precio_Sin_Tasa_Compartido_1, VNum 31.74),
              (Tasa_Turistica_1, VNum 5.5), (Interes_Compartido_1, VNum 2.76)]], [])"
  unfolding hostel_no_2_adult_price_def hostel_no_1_adult_price_def hostel_empty_2_adult_list_def
  by code_simp

subsection \<open>Normalisation\<close>

text \<open>
  Claim C9: every row that normalisation keeps has a price above 0.01; a record whose
  price text has no digit, or whose extracted price is not positive, leaves no row
  behind (the kept rows are exactly the parsed records whose extracted price exceeds
  0.01); and normalising a normalised sequence changes nothing.
\<close>

theorem normalization_invariant:
  "(\<forall>row \<in> set (normalize xs). \<exists>v. price row = Some v \<and> 0.01 < v)
   \<and> (\<forall>r \<in> set xs.
        (\<forall>c \<in> set (avgPriceFormatted r). \<not> is_digit c)
        \<or> (\<exists>v. extract_price (avgPriceFormatted r) = Some v \<and> v \<le> 0)
        \<longrightarrow> (\<forall>row \<in> set (normalize xs). avgPriceFormatted row \<noteq> avgPriceFormatted r))
   \<and> normalize xs =
       parse_hotel_prices
         (filter (\<lambda>r. price_gt (extract_price (avgPriceFormatted r)) 0.01) xs)
   \<and> normalize (normalize xs) = normalize xs"
proof (intro conjI ballI impI)
  fix row assume "row \<in> set (normalize xs)"
  then show "\<exists>v. price row = Some v \<and> 0.01 < v" by (rule normalize_price_gt)
next
  fix r row
  assume bad: "(\<forall>c \<in> set (avgPriceFormatted r). \<not> is_digit c)
        \<or> (\<exists>v. extract_price (avgPriceFormatted r) = Some v \<and> v \<le> 0)"
    and row: "row \<in> set (normalize xs)"
  from row have g: "price_gt (extract_price (avgPriceFormatted row)) 0.01"
    by (rule normalize_row_text)
  from bad have "\<not> price_gt (extract_price (avgPriceFormatted r)) 0.01"
  proof
    assume "\<forall>c \<in> set (avgPriceFormatted r). \<not> is_digit c"
    then have "extract_price (avgPriceFormatted r) = None"
      by (simp add: extract_price_None_iff)
    then show ?thesis by (simp add: price_gt_def)
  next
    assume "\<exists>v. extract_price (avgPriceFormatted r) = Some v \<and> v \<le> 0"
    then obtain v where "extract_price (avgPriceFormatted r) = Some v" "v \<le> 0" by blast
    then show ?thesis by (simp add: price_gt_def)
  qed
  with g show "avgPriceFormatted row \<noteq> avgPriceFormatted r" by auto
next
  show "normalize xs =
       parse_hotel_prices
         (filter (\<lambda>r. price_gt (extract_price (avgPriceFormatted r)) 0.01) xs)"
    by (rule normalize_as_filter)
next
  show "normalize (normalize xs) = normalize xs" by (rule normalize_idem)
qed

text \<open>On the three sample days only the priced one is kept.\<close>

theorem normalization_invariant_witness:
  "(\<exists>v. price (hd (normalize three_days)) = Some v \<and> 0.01 < v)
   \<and> length (normalize three_days) = 1
   \<and> avgPriceFormatted (hd (normalize three_days)) \<noteq> ''n/a''
   \<and> avgPriceFormatted (hd (normalize three_days)) \<noteq> ''EUR 0''
   \<and> normalize (normalize three_days) = normalize three_days"
proof -
  have m: "hd (normalize three_days) \<in> set (normalize three_days)"
    by (simp add: normalize_three_days)
  have z: "extract_price ''EUR 0'' = Some 0" by code_simp
  have d: "\<forall>c \<in> set ''n/a''. \<not> is_digit c" by (simp add: is_digit_def)
  have z': "\<exists>v. extract_price ''EUR 0'' = Some v \<and> v \<le> 0" using z by simp
  let ?r2 = "\<lparr>available = False, avgPriceFormatted = ''EUR 0'', checkin = 2\<rparr>"
  let ?r3 = "\<lparr>available = False, avgPriceFormatted = ''n/a'', checkin = 3\<rparr>"
  have r2: "?r2 \<in> set three_days" and r3: "?r3 \<in> set three_days"
    by (simp_all add: three_days_def)
  note T = normalization_invariant [of three_days]
  have a: "\<exists>v. price (hd (normalize three_days)) = Some v \<and> 0.01 < v"
    using T [THEN conjunct1, THEN bspec, OF m] .
  have b3: "avgPriceFormatted (hd (normalize three_days)) \<noteq> avgPriceFormatted ?r3"
    using T [THEN conjunct2, THEN conjunct1, THEN bspec, OF r3, THEN mp, THEN bspec, OF _ m] d
    by simp
  have b2: "avgPriceFormatted (hd (normalize three_days)) \<noteq> avgPriceFormatted ?r2"
    using T [THEN conjunct2, THEN conjunct1, THEN bspec, OF r2, THEN mp, THEN bspec, OF _ m] z'
    by simp
  have c: "normalize (normalize three_days) = normalize three_days"
    using T [THEN conjunct2, THEN conjunct2, THEN conjunct2] .
  have l: "length (normalize three_days) = 1" by (simp add: normalize_three_days)
  show ?thesis using a b2 b3 c l by simp
qed

subsection \<open>The day count of the availability query\<close>

text \<open>
  Claim C8: for every start date and optional end date, the day count of the query that
  \<^verbatim>\<open>scrape_prices\<close> sends is \<open>min dayspan 30\<close>, where the day span is
  \<open>(end - start).days + 1\<close> with an end date and 1 without; a span above 30 days is sent
  as exactly 30.
\<close>

theorem query_day_count:
  "amountOfDays (gql_body hotel_name hotel_country csrf_token num_adults start_date end_date)
     = min (spec_dayspan start_date end_date) 30
   \<and> map amountOfDays
        (snd (scrape_prices s hotel_name hotel_country csrf_token num_adults start_date end_date))
     = [min (spec_dayspan start_date end_date) 30]
   \<and> (30 < spec_dayspan start_date end_date \<longrightarrow>
        map amountOfDays
          (snd (scrape_prices s hotel_name hotel_country csrf_token num_adults
                  start_date end_date)) = [30])"
  by (auto simp add: gql_body_def scrape_prices_def price_n_days_def spec_dayspan_def Let_def
      split: option.splits)

text \<open>A range of 61 days is sent as 30.\<close>

theorem query_day_count_witness:
  "(30::int) < spec_dayspan 100 (Some 160)
   \<and> map amountOfDays
        (snd (scrape_prices status_500_session ''hostal-ramos'' ''es'' [] 2 100 (Some 160)))
      = [30]"
  using query_day_count [of "''hostal-ramos''" "''es''" "[]" 2 100 "Some 160" status_500_session]
  by (simp add: spec_dayspan_def)

subsection \<open>Outcomes of the availability query\<close>




subsection \<open>The batch is aligned with its input\<close>



end
